theory Spec2Isabelle
  imports Main
begin

section \<open>JavaScript values\<close>

text \<open>
  The program under verification is \<^verbatim>\<open>src/app.js\<close>: one HTTP request handler, a SIGTERM
  hook, the start-up code and an embedded self-test.

  A JavaScript string is modelled as a \<^typ>\<open>string\<close>, a list of 8-bit characters. That is
  exact for \<^verbatim>\<open>req.url\<close>, which Node decodes one byte to one code unit, and for every literal
  of the program whose code units are below 256. Literals beyond that range (the emoji of
  the console messages) are written as their UTF-8 bytes.
\<close>

subsection \<open>Numbers\<close>

text \<open>
  A finite JavaScript number is kept as the decimal \<open>m * 10 ^ e\<close> that
  \<^verbatim>\<open>Number::toString\<close> prints: \<open>Decimal m e\<close>. The program never computes with numbers; it
  only prints them (\<^verbatim>\<open>process.uptime()\<close>, \<^verbatim>\<open>process.pid\<close>, the memory statistics, the port)
  and tests \<^verbatim>\<open>typeof x === 'number'\<close>.
\<close>

datatype jsnum = Decimal int int

definition num_of_int :: "int \<Rightarrow> jsnum" where
  "num_of_int i = Decimal i 0"

definition num_nonneg :: "jsnum \<Rightarrow> bool" where
  "num_nonneg x = (case x of Decimal m e \<Rightarrow> 0 \<le> m)"

definition num_is_zero :: "jsnum \<Rightarrow> bool" where
  "num_is_zero x = (case x of Decimal m e \<Rightarrow> m = 0)"

definition digit_char :: "nat \<Rightarrow> char" where
  "digit_char d = char_of (48 + d)"

fun nat_digits :: "nat \<Rightarrow> string" where
  "nat_digits n = (if n < 10 then [digit_char n] else nat_digits (n div 10) @ [digit_char (n mod 10)])"

declare nat_digits.simps [simp del]

fun strip_zeros :: "nat \<Rightarrow> int \<Rightarrow> nat \<times> int" where
  "strip_zeros s e = (if s \<noteq> 0 \<and> s mod 10 = 0 then strip_zeros (s div 10) (e + 1) else (s, e))"

declare strip_zeros.simps [simp del]

text \<open>
  \<^verbatim>\<open>Number::toString(x, 10)\<close> of ECMA-262: with \<open>k\<close> digits \<open>ds\<close> of the shortest significand
  and \<open>n\<close> the position of the decimal point, the four layouts (integer, fraction, small
  fraction, exponent).
\<close>

definition Number_toString :: "jsnum \<Rightarrow> string" where
  "Number_toString x = (case x of Decimal m e \<Rightarrow>
     if m = 0 then ''0''
     else (if m < 0 then ''-'' else []) @
       (case strip_zeros (nat \<bar>m\<bar>) e of (s, e') \<Rightarrow>
          let ds = nat_digits s; k = int (length ds); n = k + e' in
          if k \<le> n \<and> n \<le> 21 then ds @ replicate (nat (n - k)) (CHR ''0'')
          else if 0 < n \<and> n \<le> 21 then take (nat n) ds @ ''.'' @ drop (nat n) ds
          else if - 6 < n \<and> n \<le> 0 then ''0.'' @ replicate (nat (- n)) (CHR ''0'') @ ds
          else
            let ex = n - 1;
                exs = (if ex < 0 then ''-'' else ''+'') @ nat_digits (nat \<bar>ex\<bar>)
            in if k = 1 then ds @ ''e'' @ exs
               else take 1 ds @ ''.'' @ drop 1 ds @ ''e'' @ exs))"

subsection \<open>Values\<close>

datatype jsval =
    JUndefined
  | JNull
  | JBool bool
  | JNum jsnum
  | JStr string
  | JArr "jsval list"
  | JObj "(string \<times> jsval) list"

fun join :: "string \<Rightarrow> string list \<Rightarrow> string" where
  "join sep [] = []"
| "join sep [x] = x"
| "join sep (x # y # ys) = x @ sep @ join sep (y # ys)"

text \<open>\<^verbatim>\<open>ToString\<close>, as a template literal \<^verbatim>\<open>${v}\<close> applies it.\<close>

fun js_to_string :: "jsval \<Rightarrow> string" where
  "js_to_string JUndefined = ''undefined''"
| "js_to_string JNull = ''null''"
| "js_to_string (JBool b) = (if b then ''true'' else ''false'')"
| "js_to_string (JNum x) = Number_toString x"
| "js_to_string (JStr s) = s"
| "js_to_string (JArr vs) =
     join '','' (map (\<lambda>v. if v = JUndefined \<or> v = JNull then [] else js_to_string v) vs)"
| "js_to_string (JObj kvs) = ''[object Object]''"

text \<open>\<^verbatim>\<open>ToBoolean\<close>, as \<^verbatim>\<open>assert(v)\<close> and \<^verbatim>\<open>a || b\<close> apply it.\<close>

fun truthy :: "jsval \<Rightarrow> bool" where
  "truthy JUndefined = False"
| "truthy JNull = False"
| "truthy (JBool b) = b"
| "truthy (JNum x) = (\<not> num_is_zero x)"
| "truthy (JStr s) = (s \<noteq> [])"
| "truthy (JArr vs) = True"
| "truthy (JObj kvs) = True"

fun is_number :: "jsval \<Rightarrow> bool" where
  "is_number (JNum x) = True"
| "is_number v = False"

subsection \<open>JSON.stringify\<close>








text \<open>
  Reading a JSON document back: \<open>get_field v k\<close> is the property \<open>k\<close> of a parsed value
  (\<^verbatim>\<open>undefined\<close> when it has none), and \<open>json_keys\<close> lists the keys that
  \<^verbatim>\<open>JSON.stringify\<close> prints for an object, in order.
\<close>

fun get_field :: "jsval \<Rightarrow> string \<Rightarrow> jsval" where
  "get_field (JObj kvs) k = (case map_of kvs k of None \<Rightarrow> JUndefined | Some v \<Rightarrow> v)"
| "get_field v k = JUndefined"


section \<open>Dates\<close>

text \<open>
  \<^verbatim>\<open>new Date()\<close> is a time value: the milliseconds since 1970-01-01T00:00:00Z, an integer with
  \<open>\<bar>t\<bar> \<le> 8.64 * 10 ^ 15\<close>. The functions below are the day and time arithmetic of ECMA-262
  (section "Time Values and Time Range" onwards) under its own names.
\<close>

definition msPerDay :: int where
  "msPerDay = 86400000"

definition time_in_range :: "int \<Rightarrow> bool" where
  "time_in_range t = (- 8640000000000000 \<le> t \<and> t \<le> 8640000000000000)"


definition TimeWithinDay :: "int \<Rightarrow> int" where
  "TimeWithinDay t = t mod msPerDay"
















text \<open>
  A recogniser of that format. \<open>eat_lit\<close> consumes a literal, \<open>eat_num\<close> a number of exactly
  \<open>w\<close> digits whose value lies in \<open>lo..hi\<close>.
\<close>

definition is_digit :: "char \<Rightarrow> bool" where
  "is_digit c = (48 \<le> (of_char c :: nat) \<and> (of_char c :: nat) \<le> 57)"

definition digits_value :: "string \<Rightarrow> nat" where
  "digits_value s = foldl (\<lambda>a c. 10 * a + ((of_char c :: nat) - 48)) 0 s"

definition eat_lit :: "string \<Rightarrow> string \<Rightarrow> string option" where
  "eat_lit l s = (if take (length l) s = l then Some (drop (length l) s) else None)"

definition eat_num :: "nat \<Rightarrow> nat \<Rightarrow> nat \<Rightarrow> string \<Rightarrow> string option" where
  "eat_num w lo hi s =
     (let ds = take w s in
      if length ds = w \<and> list_all is_digit ds \<and> lo \<le> digits_value ds \<and> digits_value ds \<le> hi
      then Some (drop w s) else None)"

definition eat_year :: "string \<Rightarrow> string option" where
  "eat_year s =
     (case s of
        [] \<Rightarrow> None
      | c # cs \<Rightarrow> if c = CHR ''+'' \<or> c = CHR ''-'' then eat_num 6 0 999999 cs
                 else eat_num 4 0 9999 s)"

definition is_iso_8601 :: "string \<Rightarrow> bool" where
  "is_iso_8601 s =
     (Option.bind (eat_year s) (\<lambda>s.
      Option.bind (eat_lit ''-'' s) (\<lambda>s.
      Option.bind (eat_num 2 1 12 s) (\<lambda>s.
      Option.bind (eat_lit ''-'' s) (\<lambda>s.
      Option.bind (eat_num 2 1 31 s) (\<lambda>s.
      Option.bind (eat_lit ''T'' s) (\<lambda>s.
      Option.bind (eat_num 2 0 23 s) (\<lambda>s.
      Option.bind (eat_lit '':'' s) (\<lambda>s.
      Option.bind (eat_num 2 0 59 s) (\<lambda>s.
      Option.bind (eat_lit '':'' s) (\<lambda>s.
      Option.bind (eat_num 2 0 59 s) (\<lambda>s.
      Option.bind (eat_lit ''.'' s) (\<lambda>s.
      Option.bind (eat_num 3 0 999 s) (\<lambda>s.
      eat_lit ''Z'' s))))))))))))) = Some [])"

section \<open>url.parse\<close>


















section \<open>The process and its configuration\<close>

text \<open>
  What the program reads from its runtime: the command line, the environment, the constants
  of \<^verbatim>\<open>process\<close>, the clock, the uptime and the memory statistics; and what it writes: the two
  console streams. \<open>clock p k\<close> is the time value of the \<open>k\<close>-th \<^verbatim>\<open>new Date()\<close> of the
  process, and \<open>date_reads\<close> counts the readings made so far.
\<close>

record process =
  argv :: "string list"
  env :: "(string \<times> string) list"
  version :: string
  platform :: string
  arch :: string
  pid :: nat
  clock :: "nat \<Rightarrow> int"
  date_reads :: nat
  uptime :: jsnum
  memoryUsage :: "(string \<times> nat) list"
  stdout :: "string list"
  stderr :: "string list"


definition console_log :: "string \<Rightarrow> process \<Rightarrow> process" where
  "console_log line p = p\<lparr>stdout := stdout p @ [line]\<rparr>"

definition console_error :: "string \<Rightarrow> process \<Rightarrow> process" where
  "console_error line p = p\<lparr>stderr := stderr p @ [line]\<rparr>"

text \<open>
  Lines 3 and 4: \<^verbatim>\<open>process.env.PORT || 3000\<close> and \<^verbatim>\<open>process.env.NODE_ENV || 'development'\<close>.
  A variable of the environment is a string or \<^verbatim>\<open>undefined\<close>; \<^verbatim>\<open>||\<close> takes its right operand
  when the left one is \<^verbatim>\<open>undefined\<close> or the empty string.
\<close>

record config =
  port :: jsval
  environment :: string




section \<open>The request handler\<close>

record request =
  req_method :: string
  url :: string
  req_headers :: "(string \<times> string) list"

text \<open>
  The response object: the status code (200 until it is assigned), the headers that
  \<^verbatim>\<open>setHeader\<close> stores under the lower-cased name together with the name as written, the
  body handed to \<^verbatim>\<open>end\<close>, and whether \<^verbatim>\<open>end\<close> was called.
\<close>

record response =
  statusCode :: nat
  headers :: "(string \<times> string \<times> string) list"
  body :: string
  ended :: bool

definition new_response :: response where
  "new_response = \<lparr> statusCode = 200, headers = [], body = [], ended = False \<rparr>"

definition to_lower :: "char \<Rightarrow> char" where
  "to_lower c =
     (case map_of (zip ''ABCDEFGHIJKLMNOPQRSTUVWXYZ'' ''abcdefghijklmnopqrstuvwxyz'') c of
        None \<Rightarrow> c
      | Some l \<Rightarrow> l)"

fun store :: "string \<Rightarrow> 'a \<Rightarrow> (string \<times> 'a) list \<Rightarrow> (string \<times> 'a) list" where
  "store k v [] = [(k, v)]"
| "store k v ((k', v') # kvs) = (if k' = k then (k, v) # kvs else (k', v') # store k v kvs)"

definition setHeader :: "string \<Rightarrow> string \<Rightarrow> response \<Rightarrow> response" where
  "setHeader name v res = res\<lparr>headers := store (map to_lower name) (name, v) (headers res)\<rparr>"

definition getHeader :: "response \<Rightarrow> string \<Rightarrow> string option" where
  "getHeader res name = map_option snd (map_of (headers res) (map to_lower name))"

definition set_status :: "nat \<Rightarrow> response \<Rightarrow> response" where
  "set_status n res = res\<lparr>statusCode := n\<rparr>"

text \<open>\<^verbatim>\<open>res.end(data)\<close>; \<open>None\<close> is \<^verbatim>\<open>undefined\<close>, which writes nothing.\<close>

definition res_end :: "string option \<Rightarrow> response \<Rightarrow> response" where
  "res_end data res =
     res\<lparr>body := body res @ (case data of None \<Rightarrow> [] | Some s \<Rightarrow> s), ended := True\<rparr>"






definition memory_object :: "process \<Rightarrow> jsval" where
  "memory_object p = JObj (map (\<lambda>kv. (fst kv, JNum (num_of_int (int (snd kv))))) (memoryUsage p))"

definition info_object :: "config \<Rightarrow> process \<Rightarrow> jsval" where
  "info_object cfg p = JObj
     [(''platform'', JStr (platform p)),
      (''architecture'', JStr (arch p)),
      (''node_version'', JStr (version p)),
      (''memory_usage'', memory_object p),
      (''environment'', JStr (environment cfg)),
      (''pid'', JNum (num_of_int (int (pid p))))]"




definition cors :: "response \<Rightarrow> response" where
  "cors res =
     setHeader ''Access-Control-Allow-Headers'' ''Content-Type''
       (setHeader ''Access-Control-Allow-Methods'' ''GET, POST, PUT, DELETE''
          (setHeader ''Access-Control-Allow-Origin'' ''*'' res))"


section \<open>Start-up\<close>






definition rocket :: string where
  "rocket = [CHR 0xF0, CHR 0x9F, CHR 0x9A, CHR 0x80]"

definition on_listening :: "config \<Rightarrow> process \<Rightarrow> process" where
  "on_listening cfg p =
     console_log (''Node.js version: '' @ version p)
       (console_log (''Environment: '' @ environment cfg)
          (console_log (rocket @ '' Server running at http://localhost:'' @ js_to_string (port cfg) @ ''/'') p))"

section \<open>Graceful shutdown\<close>

text \<open>
  Lines 94 to 100. The program's part is the SIGTERM hook, which logs and calls
  \<^verbatim>\<open>server.close(callback)\<close>, and the callback, which logs and calls \<^verbatim>\<open>process.exit(0)\<close>. The
  runtime's part is the server: \<^verbatim>\<open>close\<close> stops it from accepting connections and registers the
  callback for the \<^verbatim>\<open>'close'\<close> event, which the server emits once it accepts no more and no
  connection is left. The state of that system: whether the server accepts, the number of
  open connections, the number of registered callbacks, the exit status once the process
  has exited, and the history of the two actions whose order matters.
\<close>

datatype event = Sigterm | Connection_opened | Connection_closed

datatype action = Stopped_accepting | Exited nat

record system =
  console :: "string list"
  accepting :: bool
  connections :: nat
  close_callbacks :: nat
  exit_status :: "nat option"
  history :: "action list"

definition process_exit :: "nat \<Rightarrow> system \<Rightarrow> system" where
  "process_exit n s =
     (if exit_status s = None then s\<lparr>exit_status := Some n, history := history s @ [Exited n]\<rparr> else s)"

definition close_callback :: "system \<Rightarrow> system" where
  "close_callback s =
     (if exit_status s = None
      then process_exit 0 (s\<lparr>console := console s @ [''Server closed'']\<rparr>)
      else s)"

definition emit_close_if_drained :: "system \<Rightarrow> system" where
  "emit_close_if_drained s =
     (if \<not> accepting s \<and> connections s = 0
      then (close_callback ^^ close_callbacks s) s
      else s)"

definition server_close :: "system \<Rightarrow> system" where
  "server_close s =
     emit_close_if_drained
       (s\<lparr>accepting := False, close_callbacks := Suc (close_callbacks s),
          history := history s @ [Stopped_accepting]\<rparr>)"

definition on_SIGTERM :: "system \<Rightarrow> system" where
  "on_SIGTERM s =
     server_close (s\<lparr>console := console s @ [''Received SIGTERM, shutting down gracefully'']\<rparr>)"

definition step :: "system \<Rightarrow> event \<Rightarrow> system" where
  "step s e =
     (if exit_status s \<noteq> None then s
      else case e of
        Sigterm \<Rightarrow> on_SIGTERM s
      | Connection_opened \<Rightarrow> (if accepting s then s\<lparr>connections := Suc (connections s)\<rparr> else s)
      | Connection_closed \<Rightarrow> emit_close_if_drained (s\<lparr>connections := connections s - 1\<rparr>))"

definition run :: "system \<Rightarrow> event list \<Rightarrow> system" where
  "run s evs = foldl step s evs"

definition serving :: "nat \<Rightarrow> system" where
  "serving n = \<lparr> console = [], accepting = True, connections = n, close_callbacks = 0,
                 exit_status = None, history = [] \<rparr>"

text \<open>
  The invariant of that system, with \<open>seen\<close> saying whether a SIGTERM has arrived: a callback
  is registered exactly when it has; the server then accepts no more; the process has exited,
  with status 0, exactly when it has and no connection is left; and the history is the
  \<^verbatim>\<open>close\<close> calls followed by the exit, if any.
\<close>

definition shutdown_inv :: "bool \<Rightarrow> system \<Rightarrow> bool" where
  "shutdown_inv seen s =
     ((0 < close_callbacks s) = seen
      \<and> (seen \<longrightarrow> \<not> accepting s)
      \<and> exit_status s = (if seen \<and> connections s = 0 then Some 0 else None)
      \<and> history s = replicate (close_callbacks s) Stopped_accepting
           @ (case exit_status s of None \<Rightarrow> [] | Some c \<Rightarrow> [Exited c]))"

section \<open>The self-test\<close>

text \<open>
  Lines 112 to 175. The two requests go over the network; what comes back is an input of the
  model: a network error with its message, or a response with its status code and the
  result of \<^verbatim>\<open>JSON.parse\<close> on its body (\<open>Inl\<close> the message of the \<^verbatim>\<open>SyntaxError\<close>, \<open>Inr\<close> the
  value). A failed assertion is \<open>Inl\<close> its message, as the \<^verbatim>\<open>catch\<close> blocks read it.
\<close>

datatype http_result = Net_error string | Http_response nat "string + jsval"

datatype outcome = Exit nat | Uncaught string

datatype test_action = Listen jsval | Get string | Close

text \<open>An uncaught exception ends a Node process with exit status 1.\<close>

fun exit_code :: "outcome \<Rightarrow> nat" where
  "exit_code (Exit n) = n"
| "exit_code (Uncaught msg) = 1"

definition and_then :: "string + 'a \<Rightarrow> ('a \<Rightarrow> string + 'b) \<Rightarrow> string + 'b" where
  "and_then r f = (case r of Inl msg \<Rightarrow> Inl msg | Inr x \<Rightarrow> f x)"

definition assert_that :: "bool \<Rightarrow> string \<Rightarrow> string + unit" where
  "assert_that ok msg = (if ok then Inr () else Inl msg)"

text \<open>Reading a property throws a \<^verbatim>\<open>TypeError\<close> on \<^verbatim>\<open>null\<close> and \<^verbatim>\<open>undefined\<close>.\<close>

definition get_prop :: "jsval \<Rightarrow> string \<Rightarrow> string + jsval" where
  "get_prop v k =
     (if v = JNull \<or> v = JUndefined
      then Inl (''Cannot read properties of '' @ js_to_string v @ '' (reading '' @ [CHR 0x27] @ k @ [CHR 0x27] @ '')'')
      else Inr (get_field v k))"

definition health_checks :: "nat \<Rightarrow> string + jsval \<Rightarrow> string + unit" where
  "health_checks status parsed =
     and_then parsed (\<lambda>json.
     and_then (assert_that (status = 200) ''Health endpoint should return 200'') (\<lambda>_.
     and_then (get_prop json ''status'') (\<lambda>v.
     and_then (assert_that (v = JStr ''healthy'') ''Health status should be healthy'') (\<lambda>_.
     and_then (get_prop json ''timestamp'') (\<lambda>v.
     and_then (assert_that (truthy v) ''Should have timestamp'') (\<lambda>_.
     and_then (get_prop json ''uptime'') (\<lambda>v.
     assert_that (is_number v) ''Uptime should be a number'')))))))"

definition info_checks :: "nat \<Rightarrow> string + jsval \<Rightarrow> string + unit" where
  "info_checks status parsed =
     and_then parsed (\<lambda>json.
     and_then (assert_that (status = 200) ''Info endpoint should return 200'') (\<lambda>_.
     and_then (get_prop json ''platform'') (\<lambda>v.
     assert_that (truthy v) ''Should have platform info'')))"

definition test_tube :: string where
  "test_tube = [CHR 0xF0, CHR 0x9F, CHR 0xA7, CHR 0xAA]"

definition check_mark :: string where
  "check_mark = [CHR 0xE2, CHR 0x9C, CHR 0x85]"

definition cross_mark :: string where
  "cross_mark = [CHR 0xE2, CHR 0x9D, CHR 0x8C]"

definition party :: string where
  "party = [CHR 0xF0, CHR 0x9F, CHR 0x8E, CHR 0x89]"

definition test_url :: "nat \<Rightarrow> string \<Rightarrow> string" where
  "test_url n path = ''http://localhost:'' @ nat_digits n @ path"

text \<open>
  The test branch. \<open>n\<close> is the port of \<^verbatim>\<open>server.address()\<close>; \<open>health\<close> and \<open>info\<close> are what the
  two requests come back with. The result is how the process ends, the calls it made on the
  server and the network in order, and the process with what it printed. The first request
  has an \<^verbatim>\<open>'error'\<close> listener (line 169); the second has none, so an error there is thrown by
  the event emitter and nothing catches it.
\<close>

definition self_test :: "nat \<Rightarrow> http_result \<Rightarrow> http_result \<Rightarrow> process \<Rightarrow> outcome \<times> test_action list \<times> process" where
  "self_test n health info p0 =
     (let p1 = console_log (test_tube @ '' Running tests...'') p0 in
      if (2::int) + 2 \<noteq> 4
      then (Exit 1, [], console_error (cross_mark @ '' Math test failed: Math test failed'') p1)
      else
        let p2 = console_log (check_mark @ '' Math test passed'') p1;
            calls = [Listen (JNum (num_of_int 0)), Get (test_url n ''/health'')]
        in case health of
             Net_error msg \<Rightarrow>
               (Exit 1, calls @ [Close], console_error (cross_mark @ '' HTTP request failed: '' @ msg) p2)
           | Http_response status parsed \<Rightarrow>
               (case health_checks status parsed of
                  Inl msg \<Rightarrow>
                    (Exit 1, calls @ [Close],
                     console_error (cross_mark @ '' Health endpoint test failed: '' @ msg) p2)
                | Inr u \<Rightarrow>
                    let p3 = console_log (check_mark @ '' Health endpoint test passed'') p2;
                        calls' = calls @ [Get (test_url n ''/info'')]
                    in case info of
                         Net_error msg \<Rightarrow> (Uncaught msg, calls', p3)
                       | Http_response status' parsed' \<Rightarrow>
                           (case info_checks status' parsed' of
                              Inl msg \<Rightarrow>
                                (Exit 1, calls' @ [Close],
                                 console_error (cross_mark @ '' Info endpoint test failed: '' @ msg) p3)
                            | Inr u' \<Rightarrow>
                                (Exit 0, calls' @ [Close],
                                 console_log (party @ '' All tests passed successfully!'')
                                   (console_log (check_mark @ '' Info endpoint test passed'') p3)))))"

text \<open>
  The assertions as the specification lists them: both requests are answered, the bodies
  parse, \<^verbatim>\<open>/health\<close> has status 200, \<^verbatim>\<open>status\<close> equal to \<^verbatim>\<open>healthy\<close>, a \<^verbatim>\<open>timestamp\<close> and a numeric
  \<^verbatim>\<open>uptime\<close>, and \<^verbatim>\<open>/info\<close> has status 200 and a \<^verbatim>\<open>platform\<close>.
\<close>

definition health_passes :: "http_result \<Rightarrow> bool" where
  "health_passes h =
     (case h of
        Net_error msg \<Rightarrow> False
      | Http_response status parsed \<Rightarrow>
          (case parsed of
             Inl msg \<Rightarrow> False
           | Inr json \<Rightarrow> status = 200 \<and> get_field json ''status'' = JStr ''healthy''
               \<and> truthy (get_field json ''timestamp'') \<and> is_number (get_field json ''uptime'')))"

definition info_passes :: "http_result \<Rightarrow> bool" where
  "info_passes i =
     (case i of
        Net_error msg \<Rightarrow> False
      | Http_response status parsed \<Rightarrow>
          (case parsed of
             Inl msg \<Rightarrow> False
           | Inr json \<Rightarrow> status = 200 \<and> truthy (get_field json ''platform'')))"

definition healthy_reply :: http_result where
  "healthy_reply = Http_response 200 (Inr (JObj
     [(''status'', JStr ''healthy''), (''timestamp'', JStr ''2025-11-03T09:50:00.123Z''),
      (''uptime'', JNum (Decimal 12345 (- 3))), (''environment'', JStr ''development''),
      (''version'', JStr ''1.0.0''), (''node_version'', JStr ''v20.11.0'')]))"

section \<open>An example process\<close>

text \<open>A concrete process and request, on which the theorems below are instantiated.\<close>

definition example_process :: process where
  "example_process =
     \<lparr> argv = [''node'', ''app.js''], env = [(''PORT'', ''0'')], version = ''v20.11.0'',
       platform = ''linux'', arch = ''x64'', pid = 4242,
       clock = (\<lambda>k. 1762163400123 + int k), date_reads = 0,
       uptime = Decimal 12345 (- 3),
       memoryUsage = [(''rss'', 50000000), (''heapTotal'', 7000000), (''heapUsed'', 5000000)],
       stdout = [], stderr = [] \<rparr>"

definition example_request :: "string \<Rightarrow> string \<Rightarrow> request" where
  "example_request m u = \<lparr> req_method = m, url = u, req_headers = [(''user-agent'', ''curl/8.5.0'')] \<rparr>"

section \<open>Properties of the request handler\<close>




lemma to_lower_simps:
  "map to_lower ''Content-Type'' = ''content-type''"
  "map to_lower ''Access-Control-Allow-Origin'' = ''access-control-allow-origin''"
  "map to_lower ''Access-Control-Allow-Methods'' = ''access-control-allow-methods''"
  "map to_lower ''Access-Control-Allow-Headers'' = ''access-control-allow-headers''"
  by (simp_all add: to_lower_def)


lemma getHeader_res_end [simp]: "getHeader (res_end d res) name = getHeader res name"
  by (simp add: getHeader_def res_end_def)

lemma statusCode_res_end [simp]: "statusCode (res_end d res) = statusCode res"
  by (simp add: res_end_def)

lemma statusCode_setHeader [simp]: "statusCode (setHeader k v res) = statusCode res"
  by (simp add: setHeader_def)

lemma statusCode_set_status [simp]: "statusCode (set_status n res) = n"
  by (simp add: set_status_def)

lemma body_start [simp]: "body (setHeader k v (set_status n (cors new_response))) = []"
  by (simp add: setHeader_def set_status_def cors_def new_response_def)




lemma url_example [simp]: "url (example_request m u) = u"
  by (simp add: example_request_def)




text \<open>
  C3. A request whose parsed pathname is \<^verbatim>\<open>/info\<close> is answered with status 200 and content
  type \<^verbatim>\<open>application/json\<close>; the body is the serialisation of an object with exactly the keys
  \<^verbatim>\<open>platform\<close>, \<^verbatim>\<open>architecture\<close>, \<^verbatim>\<open>node_version\<close>, \<^verbatim>\<open>memory_usage\<close>, \<^verbatim>\<open>environment\<close>, \<^verbatim>\<open>pid\<close>,
  each holding the value the process reports. The keys are the same for every configuration
  and process state (\<open>cfg'\<close>, \<open>q\<close>), and \<^verbatim>\<open>platform\<close> is non-empty whenever
  \<^verbatim>\<open>process.platform\<close> is.
\<close>

lemma info_object_after [simp]:
  "info_object cfg (console_log l (p\<lparr>date_reads := n\<rparr>)) = info_object cfg p"
  by (simp add: info_object_def memory_object_def console_log_def)







text \<open>
  C6. A request whose parsed pathname is \<^verbatim>\<open>/\<close> is answered with status 200 and content type
  \<^verbatim>\<open>text/html\<close>; the body is the fixed page \<open>page_head\<close>, \<open>page_middle\<close>, \<open>page_tail\<close> with
  the configured environment name and the timestamp of line 8 (the first reading of the
  clock in this request) in its two gaps.
\<close>

lemma body_res_end_Some [simp]: "body (res_end (Some s) res) = body res @ s"
  by (simp add: res_end_def)



section \<open>Properties of start-up, shutdown and self-test\<close>




text \<open>
  C8. From a serving state with \<open>n\<close> open connections and after any sequence of events: the
  process has exited exactly when a SIGTERM has arrived and no connection is left, and then
  with status 0; once a SIGTERM has arrived the server accepts no more connections; and the
  history consists of the calls of \<^verbatim>\<open>server.close\<close>, at least one if a SIGTERM has arrived,
  followed by the exit if there is one. So the exit never precedes the stop of accepting, and
  it waits for the last connection.
\<close>

lemma close_callback_exited: "exit_status s \<noteq> None \<Longrightarrow> (close_callback ^^ k) s = s"
  by (induction k) (auto simp: close_callback_def)

lemma close_callback_exits: "exit_status s = None \<Longrightarrow> exit_status (close_callback s) \<noteq> None"
  by (simp add: close_callback_def process_exit_def)

lemma close_callbacks_once:
  assumes "exit_status s = None" and "0 < k"
  shows "(close_callback ^^ k) s = close_callback s"
proof -
  obtain j where k: "k = Suc j" using assms(2) by (cases k) auto
  have "(close_callback ^^ Suc j) s = (close_callback ^^ j) (close_callback s)"
    by (simp add: funpow_swap1)
  also have "\<dots> = close_callback s"
    by (rule close_callback_exited) (rule close_callback_exits [OF assms(1)])
  finally show ?thesis using k by simp
qed

lemma inv_serving: "shutdown_inv False (serving n)"
  by (simp add: shutdown_inv_def serving_def)

lemma inv_step:
  assumes "shutdown_inv seen s"
  shows "shutdown_inv (seen \<or> e = Sigterm) (step s e)"
proof (cases "exit_status s = None")
  case False
  then have "seen" using assms by (auto simp: shutdown_inv_def split: if_splits)
  then show ?thesis using False assms by (simp add: step_def)
next
  case True
  note live = True
  show ?thesis
  proof (cases e)
    case Sigterm
    let ?s1 = "s\<lparr>console := console s @ [''Received SIGTERM, shutting down gracefully''],
                  accepting := False, close_callbacks := Suc (close_callbacks s),
                  history := history s @ [Stopped_accepting]\<rparr>"
    have h: "history ?s1 = replicate (Suc (close_callbacks s)) Stopped_accepting"
      using assms live by (simp add: shutdown_inv_def replicate_append_same)
    show ?thesis
    proof (cases "connections s = 0")
      case True
      have "step s e = close_callback ?s1"
        using live True Sigterm close_callbacks_once [of ?s1 "Suc (close_callbacks s)"]
        by (simp add: step_def on_SIGTERM_def server_close_def emit_close_if_drained_def)
      then show ?thesis using h live True Sigterm
        by (simp add: shutdown_inv_def close_callback_def process_exit_def)
    next
      case False
      have "step s e = ?s1"
        using live False Sigterm
        by (simp add: step_def on_SIGTERM_def server_close_def emit_close_if_drained_def)
      then show ?thesis using h live False Sigterm
        by (simp add: shutdown_inv_def)
    qed
  next
    case Connection_opened
    then show ?thesis using assms live
      by (auto simp: step_def shutdown_inv_def split: if_splits)
  next
    case Connection_closed
    let ?s1 = "s\<lparr>connections := connections s - 1\<rparr>"
    show ?thesis
    proof (cases "seen \<and> connections s - 1 = 0")
      case True
      then have c: "0 < close_callbacks s" "\<not> accepting s" using assms by (auto simp: shutdown_inv_def)
      have "step s e = close_callback ?s1"
        using live True c Connection_closed close_callbacks_once [of ?s1 "close_callbacks s"]
        by (simp add: step_def emit_close_if_drained_def)
      then show ?thesis using assms live True Connection_closed
        by (simp add: shutdown_inv_def close_callback_def process_exit_def)
    next
      case False
      have "close_callbacks s = 0 \<or> connections s - 1 \<noteq> 0" using False assms by (auto simp: shutdown_inv_def)
      then have "step s e = ?s1"
        using live Connection_closed by (auto simp: step_def emit_close_if_drained_def)
      then show ?thesis using assms live False Connection_closed
        by (auto simp: shutdown_inv_def split: if_splits)
    qed
  qed
qed

lemma inv_run: "shutdown_inv seen s \<Longrightarrow> shutdown_inv (seen \<or> Sigterm \<in> set evs) (run s evs)"
proof (induction evs arbitrary: seen s)
  case Nil
  then show ?case by (simp add: run_def)
next
  case (Cons e evs)
  have "shutdown_inv ((seen \<or> e = Sigterm) \<or> Sigterm \<in> set evs) (run (step s e) evs)"
    by (rule Cons.IH) (rule inv_step [OF Cons.prems])
  moreover have "((seen \<or> e = Sigterm) \<or> Sigterm \<in> set evs) = (seen \<or> Sigterm \<in> set (e # evs))" by auto
  ultimately show ?case by (simp add: run_def)
qed

theorem graceful_shutdown:
  "exit_status (run (serving n) evs)
      = (if Sigterm \<in> set evs \<and> connections (run (serving n) evs) = 0 then Some 0 else None)
   \<and> (Sigterm \<in> set evs \<longrightarrow> \<not> accepting (run (serving n) evs))
   \<and> (\<exists>k. history (run (serving n) evs)
            = replicate k Stopped_accepting
              @ (case exit_status (run (serving n) evs) of None \<Rightarrow> [] | Some c \<Rightarrow> [Exited c])
          \<and> (0 < k) = (Sigterm \<in> set evs))"
  using inv_run [OF inv_serving, of evs n] unfolding shutdown_inv_def by auto

theorem graceful_shutdown_witness:
  "exit_status (run (serving 1) [Sigterm]) = None
     \<and> \<not> accepting (run (serving 1) [Sigterm])
     \<and> exit_status (run (serving 1) [Sigterm, Connection_opened, Connection_closed]) = Some 0
     \<and> history (run (serving 1) [Sigterm, Connection_opened, Connection_closed])
         = [Stopped_accepting, Exited 0]"
proof -
  have c1: "connections (run (serving 1) [Sigterm]) = 1"
    by (simp add: run_def step_def on_SIGTERM_def server_close_def emit_close_if_drained_def serving_def)
  have c2: "connections (run (serving 1) [Sigterm, Connection_opened, Connection_closed]) = 0"
    by (simp add: run_def step_def on_SIGTERM_def server_close_def emit_close_if_drained_def serving_def
        close_callback_def process_exit_def)
  have h: "history (run (serving 1) [Sigterm, Connection_opened, Connection_closed])
         = [Stopped_accepting, Exited 0]"
    by (simp add: run_def step_def on_SIGTERM_def server_close_def emit_close_if_drained_def serving_def
        close_callback_def process_exit_def)
  show ?thesis
    using graceful_shutdown [of 1 "[Sigterm]"]
      graceful_shutdown [of 1 "[Sigterm, Connection_opened, Connection_closed]"] c1 c2 h
    by simp
qed

text \<open>
  C7. The exit status of the self-test is 0 exactly when every assertion passes (lemma
  \<open>self_test_exit_code\<close>). But a network error on the second request is not reported: with a
  good answer to \<^verbatim>\<open>/health\<close> and an error on the request to \<^verbatim>\<open>/info\<close>, the run ends with an
  uncaught exception, nothing is written to the error stream and \<^verbatim>\<open>server.close\<close> is not
  called, whereas the same error on the first request prints \<^verbatim>\<open>HTTP request failed\<close>, closes
  the server and exits with status 1.
\<close>

lemma health_checks_iff:
  "(\<exists>u. health_checks status parsed = Inr u) = health_passes (Http_response status parsed)"
  by (cases parsed)
     (auto simp: health_checks_def health_passes_def and_then_def assert_that_def get_prop_def)

lemma info_checks_iff:
  "(\<exists>u. info_checks status parsed = Inr u) = info_passes (Http_response status parsed)"
  by (cases parsed)
     (auto simp: info_checks_def info_passes_def and_then_def assert_that_def get_prop_def)

lemma self_test_exit_code:
  "(exit_code (fst (self_test n health info p)) = 0) = (health_passes health \<and> info_passes info)"
proof (cases health)
  case (Net_error msg)
  then show ?thesis by (simp add: self_test_def health_passes_def)
next
  case (Http_response status parsed)
  note h = this
  show ?thesis
  proof (cases "health_checks status parsed")
    case (Inl msg)
    then have "\<not> health_passes health" using health_checks_iff [of status parsed] h by auto
    then show ?thesis using h Inl by (simp add: self_test_def)
  next
    case (Inr u)
    then have hp: "health_passes health" using health_checks_iff [of status parsed] h by auto
    show ?thesis
    proof (cases info)
      case (Net_error msg)
      then show ?thesis using h Inr by (simp add: self_test_def info_passes_def Let_def)
    next
      case (Http_response status' parsed')
      note i = this
      show ?thesis
      proof (cases "info_checks status' parsed'")
        case (Inl msg)
        then have "\<not> info_passes info" using info_checks_iff [of status' parsed'] i by auto
        then show ?thesis using h Inr i Inl by (simp add: self_test_def Let_def)
      next
        case (Inr u')
        then have "info_passes info" using info_checks_iff [of status' parsed'] i by auto
        then show ?thesis using h \<open>health_checks status parsed = Inr u\<close> hp i Inr by (simp add: self_test_def Let_def)
      qed
    qed
  qed
qed

lemma healthy_passes: "health_passes healthy_reply"
  by (simp add: health_passes_def healthy_reply_def)

theorem info_request_error_is_uncaught:
  "self_test 40000 healthy_reply (Net_error ''read ECONNRESET'') example_process
     = (Uncaught ''read ECONNRESET'',
        [Listen (JNum (num_of_int 0)), Get (test_url 40000 ''/health''), Get (test_url 40000 ''/info'')],
        console_log (check_mark @ '' Health endpoint test passed'')
          (console_log (check_mark @ '' Math test passed'')
             (console_log (test_tube @ '' Running tests...'') example_process)))
   \<and> stderr (snd (snd (self_test 40000 healthy_reply (Net_error ''read ECONNRESET'') example_process))) = []
   \<and> self_test 40000 (Net_error ''read ECONNRESET'') healthy_reply example_process
     = (Exit 1,
        [Listen (JNum (num_of_int 0)), Get (test_url 40000 ''/health''), Close],
        console_error (cross_mark @ '' HTTP request failed: read ECONNRESET'')
          (console_log (check_mark @ '' Math test passed'')
             (console_log (test_tube @ '' Running tests...'') example_process)))"
proof -
  obtain u where "health_checks 200 (Inr (JObj
     [(''status'', JStr ''healthy''), (''timestamp'', JStr ''2025-11-03T09:50:00.123Z''),
      (''uptime'', JNum (Decimal 12345 (- 3))), (''environment'', JStr ''development''),
      (''version'', JStr ''1.0.0''), (''node_version'', JStr ''v20.11.0'')])) = Inr u"
    using health_checks_iff healthy_passes unfolding healthy_reply_def by blast
  then show ?thesis
    by (simp add: self_test_def healthy_reply_def Let_def console_log_def console_error_def example_process_def)
qed

end
